theory Spec2Isabelle
  imports Complex_Main "HOL-Library.Sublist"
begin

section \<open>Values, exceptions and strings\<close>

text \<open>
  A Python string is a sequence of code points. The strings of this development are the
  strings over the code points below 256: a \<^typ>\<open>char\<close> is the code point
  \<^term>\<open>of_char c :: nat\<close>. The scalars that travel through tool arguments (decoded
  JSON) and through SQL cells are \<open>None\<close>, booleans, integers, floats and strings; a
  float that is a number is the real it denotes. A database row is a tuple; \<open>list(r)\<close>
  turns it into a list.
\<close>

datatype pyval = PNone | PBool bool | PInt int | PFloat real | PStr string

datatype row = Row "pyval list"

fun list_of :: "row \<Rightarrow> pyval list" where
  "list_of (Row vs) = vs"

text \<open>
  Every \<open>raise\<close> of the source is a value of this type. \<open>DBError\<close> is any exception that
  comes out of the database engine and \<open>LLMError\<close> any exception of the language-model
  client; both carry \<open>str(e)\<close>. \<open>ValidationError\<close> is the argument validation of a tool
  or of a result model and carries the validator's text. \<open>ValueError\<close> and
  \<open>AttributeError\<close> carry their message.
\<close>

datatype error =
    KeyError string
  | IndexError
  | AttributeError string
  | ValueError string
  | ValidationError string
  | DBError string
  | LLMError string
  | RuntimeError string
  | HTTPException nat string

text \<open>\<open>str(e)\<close>. A \<open>KeyError\<close> prints the quoted key.\<close>

fun str_exc :: "error \<Rightarrow> string" where
  "str_exc (KeyError k) = [CHR 0x27] @ k @ [CHR 0x27]"
| "str_exc IndexError = ''list index out of range''"
| "str_exc (AttributeError m) = m"
| "str_exc (ValueError m) = m"
| "str_exc (ValidationError m) = m"
| "str_exc (DBError m) = m"
| "str_exc (LLMError m) = m"
| "str_exc (RuntimeError m) = m"
| "str_exc (HTTPException status detail) = detail"

text \<open>
  \<open>s.lower()\<close>, on the ASCII letters. A character outside ASCII never lowers to one of the
  letters of the two patterns searched below, so for them this is Python's \<open>lower\<close>.
\<close>

definition lower_char :: "char \<Rightarrow> char" where
  "lower_char c =
     (let n = (of_char c :: nat) in if 65 \<le> n \<and> n \<le> 90 then char_of (n + 32) else c)"

definition lower :: "string \<Rightarrow> string" where
  "lower s = map lower_char s"

text \<open>\<open>p in s\<close> on strings: \<open>p\<close> occurs in \<open>s\<close> as a contiguous run.\<close>

fun str_in :: "string \<Rightarrow> string \<Rightarrow> bool" where
  "str_in p [] = (p = [])"
| "str_in p (c # cs) = (prefix p (c # cs) \<or> str_in p cs)"

text \<open>
  \<open>c.isspace()\<close>, by code point: tab, line feed, vertical tab, form feed and carriage
  return; the four separators \<open>0x1c\<close> to \<open>0x1f\<close>; the space; next line \<open>0x85\<close> and
  the no-break space \<open>0xa0\<close>; the Ogham space mark \<open>0x1680\<close>; the spaces \<open>0x2000\<close> to
  \<open>0x200a\<close>; the line and paragraph separators \<open>0x2028\<close> and \<open>0x2029\<close>; the narrow
  no-break space \<open>0x202f\<close>, the medium mathematical space \<open>0x205f\<close> and the
  ideographic space \<open>0x3000\<close>. These are the characters \<open>strip\<close> removes.
\<close>

definition isspace_codepoint :: "nat \<Rightarrow> bool" where
  "isspace_codepoint n =
     ((9 \<le> n \<and> n \<le> 13) \<or> (28 \<le> n \<and> n \<le> 32) \<or> n = 0x85 \<or> n = 0xA0 \<or> n = 0x1680
      \<or> (0x2000 \<le> n \<and> n \<le> 0x200A) \<or> n = 0x2028 \<or> n = 0x2029 \<or> n = 0x202F
      \<or> n = 0x205F \<or> n = 0x3000)"

definition isspace :: "char \<Rightarrow> bool" where
  "isspace c = isspace_codepoint (of_char c)"

text \<open>\<open>s.strip()\<close>: whitespace removed at both ends.\<close>

definition strip :: "string \<Rightarrow> string" where
  "strip s = rev (dropWhile isspace (rev (dropWhile isspace s)))"

text \<open>\<open>s.split(",")\<close>: the segments between the commas, empty ones kept; at least one
  segment. The last case of the \<open>case\<close> cannot occur.\<close>

fun split :: "char \<Rightarrow> string \<Rightarrow> string list" where
  "split d [] = [[]]"
| "split d (c # cs) =
     (if c = d then [] # split d cs
      else (case split d cs of w # ws \<Rightarrow> (c # w) # ws | [] \<Rightarrow> [[c]]))"

text \<open>\<open>sep.join(xs)\<close>.\<close>

fun join :: "string \<Rightarrow> string list \<Rightarrow> string" where
  "join sep [] = []"
| "join sep [x] = x"
| "join sep (x # y # ys) = x @ sep @ join sep (y # ys)"

section \<open>Messages, result artifacts and the conversation state\<close>

text \<open>
  A tool call of a model message is the dictionary \<open>{"name", "args", "id"}\<close>. The
  \<open>additional_kwargs\<close> of a message is a dictionary of which only the keys are read; its
  values are kept as raw text. \<open>HumanMessage\<close> and \<open>ToolMessage\<close> are only ever built
  without \<open>additional_kwargs\<close>, which then is the empty dictionary.
\<close>

record tool_call =
  tc_name :: string
  tc_args :: "string \<rightharpoonup> pyval"
  tc_id :: "string option"

datatype message =
    HumanMessage string
  | AIMessage string "string \<rightharpoonup> string" "tool_call list"
  | ToolMessage string string string

fun additional_kwargs :: "message \<Rightarrow> (string \<rightharpoonup> string)" where
  "additional_kwargs (AIMessage c kw tcs) = kw"
| "additional_kwargs (HumanMessage c) = Map.empty"
| "additional_kwargs (ToolMessage c n i) = Map.empty"

text \<open>\<open>str(tool_call["id"])\<close>: the id may be \<open>None\<close>.\<close>

fun str_id :: "string option \<Rightarrow> string" where
  "str_id None = ''None''"
| "str_id (Some i) = i"

text \<open>
  The result artifacts of \<open>models.py\<close>, each with its fields in the order of the class:
  \<open>sql, for_chart\<close>; \<open>columns, rows, for_chart, linked_id\<close>;
  \<open>chartjs_json, chart_type, linked_id\<close>. The \<open>type\<close> tag is the constructor.
\<close>

datatype result =
    SQLQueryStringResult string bool
  | SQLQueryRunResult "string list" "pyval list list" bool "string option"
  | ChartGenerationResult string string "string option"

record QueryOptions =
  secure_data :: bool
  openai_api_key :: "string option"
  openai_base_url :: "string option"
  llm_model :: string

datatype tool = ListTablesTool | InfoTablesTool | ExecuteSQLTool

fun tool_name :: "tool \<Rightarrow> string" where
  "tool_name ListTablesTool = ''list_sql_tables''"
| "tool_name InfoTablesTool = ''sql_db_schema''"
| "tool_name ExecuteSQLTool = ''sql_db_query''"

text \<open>
  \<open>SQLDatabaseToolkit\<close> is a model of the validation library with the one declared
  field \<open>db\<close>; an object of the class holds that field and nothing else.
\<close>

record 'db SQLDatabaseToolkit =
  db :: 'db

record 'db QueryGraphState =
  messages :: "message list"
  results :: "result list"
  options :: QueryOptions
  sql_toolkit :: "'db SQLDatabaseToolkit"
  user_query :: string

record QueryGraphStateUpdate =
  upd_messages :: "message list"
  upd_results :: "result list"

definition state_update :: "message list \<Rightarrow> result list \<Rightarrow> QueryGraphStateUpdate" where
  "state_update ms rs = \<lparr>upd_messages = ms, upd_results = rs\<rparr>"

section \<open>The collaborators outside the repository\<close>

text \<open>
  What the language-model client is called with: the model, endpoint and key of the
  options, the names of the tools bound to it and the prompt.
\<close>

record llm_request =
  rq_model :: string
  rq_base_url :: "string option"
  rq_api_key :: "string option"
  rq_tools :: "string list"
  rq_messages :: "message list"

text \<open>
  The database engine, its inspector, the language model and two texts of the libraries
  are parameters; \<open>'db\<close> is the state of one session's database.
  \<^item> \<open>model_client\<close> is the constructor \<open>ChatOpenAI(model, base_url, api_key)\<close>: the
    text of the exception when it raises (no key in the options nor in the process
    environment), \<open>None\<close> when the client is built;
  \<^item> \<open>engine_execute\<close> is the block \<open>with engine.begin() as conn\<close> of \<open>run_sql\<close>: it
    runs the statement and fetches the rows and the keys, and gives \<open>str(e)\<close> of the
    exception when one is raised, with the database as it is afterwards;
  \<^item> \<open>inspector_table_names\<close> and \<open>inspector_columns\<close> are the inspector's
    \<open>get_table_names\<close> and \<open>get_columns\<close>; a column is its name and the text of its type;
  \<^item> \<open>model_invoke\<close> is \<open>model.invoke\<close>, by the request and the number of calls made
    before it in the run;
  \<^item> \<open>validation_text\<close> is the text of the validator's exception for a schema and an
    input, and \<open>str_list\<close> is \<open>str\<close> of a list of strings.
\<close>

record 'db env =
  engine_execute :: "'db \<Rightarrow> string \<Rightarrow> (string + string list \<times> row list) \<times> 'db"
  inspector_table_names :: "'db \<Rightarrow> string list"
  inspector_columns :: "'db \<Rightarrow> string \<Rightarrow> string + (string \<times> string) list"
  model_client :: "string \<Rightarrow> string option \<Rightarrow> string option \<Rightarrow> string option"
  model_invoke :: "llm_request \<Rightarrow> nat \<Rightarrow> string + message"
  validation_text :: "string \<Rightarrow> (string \<rightharpoonup> pyval) \<Rightarrow> string"
  str_list :: "string list \<Rightarrow> string"

section \<open>The database wrapper (\<open>services/llm_flow/utils.py\<close>)\<close>

definition get_table_names :: "'db env \<Rightarrow> 'db \<Rightarrow> string list" where
  "get_table_names env d = inspector_table_names env d"

text \<open>One pass of the loop of \<open>get_table_info\<close>: the rendering of one table.\<close>

definition table_info :: "string \<Rightarrow> (string \<times> string) list \<Rightarrow> string" where
  "table_info name cols =
     ''CREATE TABLE '' @ name @ '' ('' @ join '', '' (map (\<lambda>(n, t). n @ '' '' @ t) cols) @ '')''"

fun table_infos :: "'db env \<Rightarrow> 'db \<Rightarrow> string list \<Rightarrow> error + string list" where
  "table_infos env d [] = Inr []"
| "table_infos env d (name # names) =
     (case inspector_columns env d name of
        Inl m \<Rightarrow> Inl (DBError m)
      | Inr cols \<Rightarrow>
          (case table_infos env d names of
             Inl e \<Rightarrow> Inl e
           | Inr infos \<Rightarrow> Inr (table_info name cols # infos)))"

definition get_table_info :: "'db env \<Rightarrow> 'db \<Rightarrow> string list \<Rightarrow> error + string" where
  "get_table_info env d table_names =
     (case table_infos env d table_names of
        Inl e \<Rightarrow> Inl e
      | Inr infos \<Rightarrow> Inr (join [CHR 0x0A, CHR 0x0A] infos))"

definition run_sql :: "'db env \<Rightarrow> 'db \<Rightarrow> string \<Rightarrow> (error + string list \<times> row list) \<times> 'db" where
  "run_sql env d query =
     (case engine_execute env d query of
        (Inl m, d') \<Rightarrow> (Inl (DBError m), d')
      | (Inr (columns, rows), d') \<Rightarrow> (Inr (columns, rows), d'))"

section \<open>The tools (\<open>services/llm_flow/toolkit.py\<close>)\<close>

text \<open>
  The validation of a field by the model library, in its default mode. A \<open>str\<close> field
  takes a string and nothing else among the scalars. A \<open>bool\<close> field takes a boolean,
  the integers \<open>0\<close> and \<open>1\<close>, the floats \<open>0.0\<close> and \<open>1.0\<close>, and, compared without regard
  to ASCII case, the strings \<open>0, off, f, false, n, no\<close> (for \<open>False\<close>) and
  \<open>1, on, t, true, y, yes\<close> (for \<open>True\<close>). The result is the validated value, \<open>None\<close>
  when the validation raises.
\<close>

fun as_str :: "pyval \<Rightarrow> string option" where
  "as_str (PStr s) = Some s"
| "as_str v = None"

fun as_bool :: "pyval \<Rightarrow> bool option" where
  "as_bool (PBool b) = Some b"
| "as_bool (PInt i) = (if i = 0 then Some False else if i = 1 then Some True else None)"
| "as_bool (PFloat r) = (if r = 0 then Some False else if r = 1 then Some True else None)"
| "as_bool (PStr s) =
     (if lower s \<in> set [''0'', ''off'', ''f'', ''false'', ''n'', ''no''] then Some False
      else if lower s \<in> set [''1'', ''on'', ''t'', ''true'', ''y'', ''yes''] then Some True
      else None)"
| "as_bool PNone = None"

text \<open>
  \<open>tool.run(args)\<close> is the library's entry of a tool: it validates the arguments against
  the tool's \<open>args_schema\<close>, raises the validator's exception when they do not fit, and
  calls \<open>_run\<close> with the validated values of the arguments that were given. The functions
  named \<open>T_run\<close> below are the \<open>_run\<close> of the source; the functions \<open>T_run_args\<close> are
  \<open>run\<close> on a dictionary.
\<close>

definition ListTablesTool_run :: "'db env \<Rightarrow> 'db \<Rightarrow> string \<Rightarrow> string list" where
  "ListTablesTool_run env d tool_input = get_table_names env d"

definition ListTablesTool_run_args ::
  "'db env \<Rightarrow> 'db \<Rightarrow> (string \<rightharpoonup> pyval) \<Rightarrow> error + string list" where
  "ListTablesTool_run_args env d args =
     (case args ''tool_input'' of
        None \<Rightarrow> Inr (ListTablesTool_run env d [])
      | Some v \<Rightarrow>
          (case as_str v of
             Some s \<Rightarrow> Inr (ListTablesTool_run env d s)
           | None \<Rightarrow> Inl (ValidationError (validation_text env ''_ListTablesInput'' args))))"

text \<open>\<open>[t.strip() for t in table_names.split(",") if t.strip()]\<close>\<close>

definition stripped_names :: "string \<Rightarrow> string list" where
  "stripped_names table_names =
     map strip (filter (\<lambda>t. strip t \<noteq> []) (split (CHR '','') table_names))"

definition InfoTablesTool_run :: "'db env \<Rightarrow> 'db \<Rightarrow> string \<Rightarrow> error + string" where
  "InfoTablesTool_run env d table_names = get_table_info env d (stripped_names table_names)"

definition InfoTablesTool_run_args ::
  "'db env \<Rightarrow> 'db \<Rightarrow> (string \<rightharpoonup> pyval) \<Rightarrow> error + string" where
  "InfoTablesTool_run_args env d args =
     (case args ''table_names'' of
        None \<Rightarrow> Inl (ValidationError (validation_text env ''_InfoTablesInput'' args))
      | Some v \<Rightarrow>
          (case as_str v of
             Some s \<Rightarrow> InfoTablesTool_run env d s
           | None \<Rightarrow> Inl (ValidationError (validation_text env ''_InfoTablesInput'' args))))"

text \<open>
  \<open>get_response\<close> takes the state and does not read it. The database is the tool's own
  \<open>self.db\<close>; it is passed beside the state, since it changes as statements run. Nothing
  in \<open>InfoTablesTool.get_response\<close> catches what \<open>self.run(args)\<close> raises.
\<close>

definition InfoTablesTool_get_response ::
  "'db env \<Rightarrow> 'db \<Rightarrow> 'db QueryGraphState \<Rightarrow> (string \<rightharpoonup> pyval) \<Rightarrow> string
     \<Rightarrow> (error + QueryGraphStateUpdate) \<times> 'db" where
  "InfoTablesTool_get_response env d state args call_id =
     (case InfoTablesTool_run_args env d args of
        Inl e \<Rightarrow> (Inl e, d)
      | Inr response \<Rightarrow>
          (Inr (state_update [ToolMessage response (tool_name InfoTablesTool) call_id] []), d))"

definition ExecuteSQLTool_run ::
  "'db env \<Rightarrow> 'db \<Rightarrow> string \<Rightarrow> bool \<Rightarrow> (error + string list \<times> row list \<times> bool) \<times> 'db" where
  "ExecuteSQLTool_run env d query for_chart =
     (case run_sql env d query of
        (Inl e, d') \<Rightarrow> (Inl e, d')
      | (Inr (cols, rows), d') \<Rightarrow> (Inr (cols, rows, for_chart), d'))"

definition ExecuteSQLTool_run_args ::
  "'db env \<Rightarrow> 'db \<Rightarrow> (string \<rightharpoonup> pyval)
     \<Rightarrow> (error + string list \<times> row list \<times> bool) \<times> 'db" where
  "ExecuteSQLTool_run_args env d args =
     (case args ''query'' of
        None \<Rightarrow> (Inl (ValidationError (validation_text env ''_ExecuteSQLInput'' args)), d)
      | Some v \<Rightarrow>
          (case as_str v of
             None \<Rightarrow> (Inl (ValidationError (validation_text env ''_ExecuteSQLInput'' args)), d)
           | Some q \<Rightarrow>
               (case args ''for_chart'' of
                  None \<Rightarrow> ExecuteSQLTool_run env d q False
                | Some w \<Rightarrow>
                    (case as_bool w of
                       None \<Rightarrow>
                         (Inl (ValidationError (validation_text env ''_ExecuteSQLInput'' args)), d)
                     | Some b \<Rightarrow> ExecuteSQLTool_run env d q b))))"

text \<open>The constructor \<open>SQLQueryStringResult(sql=..., for_chart=...)\<close>, which validates its
  two fields.\<close>

definition new_SQLQueryStringResult :: "'db env \<Rightarrow> pyval \<Rightarrow> pyval \<Rightarrow> error + result" where
  "new_SQLQueryStringResult env v w =
     (case (as_str v, as_bool w) of
        (Some s, Some b) \<Rightarrow> Inr (SQLQueryStringResult s b)
      | _ \<Rightarrow>
          Inl (ValidationError
                 (validation_text env ''SQLQueryStringResult'' [''sql'' \<mapsto> v, ''for_chart'' \<mapsto> w])))"

definition query_executed :: string where
  "query_executed =
     ''Query executed successfully. '' @
     ''I cannot display raw data if secure mode is enabled; describe it instead.''"

text \<open>
  \<open>args["query"]\<close> and the constructor of the first artifact stand before the \<open>try\<close>:
  what they raise leaves \<open>get_response\<close>. Everything \<open>self.run(args)\<close> raises is caught.
\<close>

definition ExecuteSQLTool_get_response ::
  "'db env \<Rightarrow> 'db \<Rightarrow> 'db QueryGraphState \<Rightarrow> (string \<rightharpoonup> pyval) \<Rightarrow> string
     \<Rightarrow> (error + QueryGraphStateUpdate) \<times> 'db" where
  "ExecuteSQLTool_get_response env d state args call_id =
     (case args ''query'' of
        None \<Rightarrow> (Inl (KeyError ''query''), d)
      | Some q \<Rightarrow>
          (case new_SQLQueryStringResult env q
                  (case args ''for_chart'' of None \<Rightarrow> PBool False | Some v \<Rightarrow> v) of
             Inl e \<Rightarrow> (Inl e, d)
           | Inr sql_result \<Rightarrow>
               (case ExecuteSQLTool_run_args env d args of
                  (Inr (cols, rows, for_chart), d') \<Rightarrow>
                    (Inr (state_update
                            [ToolMessage query_executed (tool_name ExecuteSQLTool) call_id]
                            [sql_result, SQLQueryRunResult cols (map list_of rows) for_chart None]),
                     d')
                | (Inl e, d') \<Rightarrow>
                    (Inr (state_update
                            [ToolMessage (''ERROR: '' @ str_exc e) (tool_name ExecuteSQLTool) call_id]
                            [sql_result]),
                     d'))))"

text \<open>
  The toolkit and the attribute \<open>tool_map\<close>. \<open>SQLDatabaseToolkit\<close> declares the field
  \<open>db\<close> only, and its configuration allows no other: the model library refuses the
  assignment of an attribute that is not a declared field with a \<open>ValueError\<close>, and
  reading an attribute the object does not have is an \<open>AttributeError\<close>. Both
  \<open>self.tool_map = {}\<close> of the constructor and \<open>self.tool_map = {t.name: t for t in tools}\<close>
  of \<open>get_tools\<close> are such assignments, and \<open>tool_map\<close> is assigned nowhere else.
\<close>

definition setattr_tool_map ::
  "'db SQLDatabaseToolkit \<Rightarrow> (string \<rightharpoonup> tool) \<Rightarrow> error + 'db SQLDatabaseToolkit" where
  "setattr_tool_map toolkit m =
     Inl (ValueError (''\"SQLDatabaseToolkit\" object has no field \"tool_map\"''))"

definition getattr_tool_map :: "'db SQLDatabaseToolkit \<Rightarrow> error + (string \<rightharpoonup> tool)" where
  "getattr_tool_map toolkit =
     Inl (AttributeError
            ([CHR 0x27] @ ''SQLDatabaseToolkit'' @ [CHR 0x27] @ '' object has no attribute '' @
             [CHR 0x27] @ ''tool_map'' @ [CHR 0x27]))"

text \<open>\<open>SQLDatabaseToolkit(db)\<close>: the field is stored, then \<open>tool_map\<close> is assigned.\<close>

definition SQLDatabaseToolkit_init :: "'db \<Rightarrow> error + 'db SQLDatabaseToolkit" where
  "SQLDatabaseToolkit_init d = setattr_tool_map \<lparr>db = d\<rparr> Map.empty"

definition name_map :: "tool list \<Rightarrow> (string \<rightharpoonup> tool)" where
  "name_map tools = fold (\<lambda>t m. m(tool_name t \<mapsto> t)) tools Map.empty"

text \<open>\<open>get_tools\<close>: the three tools are built, the map from their names is assigned to
  \<open>tool_map\<close>, and the tools are returned.\<close>

definition get_tools ::
  "'db SQLDatabaseToolkit \<Rightarrow> bool \<Rightarrow> error + tool list \<times> 'db SQLDatabaseToolkit" where
  "get_tools toolkit allow_execution =
     (let tools = [ListTablesTool, InfoTablesTool] @
                  (if allow_execution then [ExecuteSQLTool] else [])
      in case setattr_tool_map toolkit (name_map tools) of
           Inl e \<Rightarrow> Inl e
         | Inr toolkit' \<Rightarrow> Inr (tools, toolkit'))"

section \<open>The nodes (\<open>services/llm_flow/prompt.py\<close>, \<open>nodes.py\<close>)\<close>

definition SYSTEM_PROMPT :: string where
  "SYSTEM_PROMPT =
     ''You are a helpful data analyst. Generate valid SQL for SQLite over table '' @
     [CHR 0x27] @ ''data'' @ [CHR 0x27] @ ''. '' @
     ''Use only supported SQL (SELECT, WHERE, GROUP BY, ORDER BY, COUNT, SUM, AVG, MIN, MAX). '' @
     ''The table name is data. When filtering on a column with a string/text data type, '' @
     ''you MUST enclose the value in single quotes (e.g., WHERE column_name = '' @
     [CHR 0x27] @ ''value'' @ [CHR 0x27] @ ''). '' @
     ''Return function calls only; never return raw SQL in free text.''"

text \<open>The request \<open>CallModelNode.run\<close> makes: the client is built from three fields of the
  options, the tools are those of \<open>get_tools()\<close>, and the prompt is the system prompt and
  the question.\<close>

definition model_request :: "QueryOptions \<Rightarrow> tool list \<Rightarrow> string \<Rightarrow> llm_request" where
  "model_request opts tools question =
     \<lparr>rq_model = llm_model opts,
      rq_base_url = openai_base_url opts,
      rq_api_key = openai_api_key opts,
      rq_tools = map tool_name tools,
      rq_messages = [HumanMessage (SYSTEM_PROMPT @ [CHR 0x0A, CHR 0x0A] @ question)]\<rparr>"

text \<open>
  A node returns its update, or raises; beside it stands the toolkit as the node leaves
  it. \<open>CallModelNode.run\<close> builds the client, asks the toolkit for its tools, and invokes
  the model; \<open>calls\<close> is the number of model calls made before in the run.
\<close>

definition CallModelNode_run ::
  "'db env \<Rightarrow> nat \<Rightarrow> 'db QueryGraphState
     \<Rightarrow> (error + QueryGraphStateUpdate) \<times> 'db SQLDatabaseToolkit" where
  "CallModelNode_run env calls state =
     (case model_client env (llm_model (options state)) (openai_base_url (options state))
             (openai_api_key (options state)) of
        Some m \<Rightarrow> (Inl (LLMError m), sql_toolkit state)
      | None \<Rightarrow>
          (case get_tools (sql_toolkit state) True of
             Inl e \<Rightarrow> (Inl e, sql_toolkit state)
           | Inr (tools, toolkit) \<Rightarrow>
               (case model_invoke env
                       (model_request (options state) tools (user_query state)) calls of
                  Inl m \<Rightarrow> (Inl (LLMError m), toolkit)
                | Inr response \<Rightarrow> (Inr (state_update [response] []), toolkit))))"

text \<open>
  The body of the loop of \<open>CallToolNode.run\<close> once the tool is looked up, with the two
  lists it extends. A \<open>StateUpdaterTool\<close> (the schema tool and the SQL tool) answers
  through \<open>get_response\<close>; the table list is run and its value wrapped. Nothing here
  catches an exception.
\<close>

definition call_tool ::
  "'db env \<Rightarrow> 'db QueryGraphState \<Rightarrow> tool \<Rightarrow> tool_call \<Rightarrow> 'db \<Rightarrow> message list \<Rightarrow> result list
     \<Rightarrow> (error + message list \<times> result list) \<times> 'db" where
  "call_tool env state t tc d output_messages rs =
     (case t of
        ListTablesTool \<Rightarrow>
          (case ListTablesTool_run_args env d (tc_args tc) of
             Inl e \<Rightarrow> (Inl e, d)
           | Inr resp \<Rightarrow>
               (Inr (output_messages @
                       [ToolMessage (str_list env resp) (tc_name tc) (str_id (tc_id tc))],
                     rs), d))
      | InfoTablesTool \<Rightarrow>
          (case InfoTablesTool_get_response env d state (tc_args tc) (str_id (tc_id tc)) of
             (Inl e, d') \<Rightarrow> (Inl e, d')
           | (Inr updates, d') \<Rightarrow>
               (Inr (output_messages @ upd_messages updates, rs @ upd_results updates), d'))
      | ExecuteSQLTool \<Rightarrow>
          (case ExecuteSQLTool_get_response env d state (tc_args tc) (str_id (tc_id tc)) of
             (Inl e, d') \<Rightarrow> (Inl e, d')
           | (Inr updates, d') \<Rightarrow>
               (Inr (output_messages @ upd_messages updates, rs @ upd_results updates), d')))"

text \<open>
  The loop over the tool calls. Each pass reads \<open>state.sql_toolkit.tool_map\<close> and looks
  the name of the call up in it; the lookup raises on a name the map does not hold.
\<close>

fun tool_calls_loop ::
  "'db env \<Rightarrow> 'db QueryGraphState \<Rightarrow> tool_call list \<Rightarrow> 'db \<Rightarrow> message list \<Rightarrow> result list
     \<Rightarrow> (error + message list \<times> result list) \<times> 'db" where
  "tool_calls_loop env state [] d output_messages rs = (Inr (output_messages, rs), d)"
| "tool_calls_loop env state (tc # rest) d output_messages rs =
     (case getattr_tool_map (sql_toolkit state) of
        Inl e \<Rightarrow> (Inl e, d)
      | Inr tool_map \<Rightarrow>
          (case tool_map (tc_name tc) of
             None \<Rightarrow> (Inl (KeyError (tc_name tc)), d)
           | Some t \<Rightarrow>
               (case call_tool env state t tc d output_messages rs of
                  (Inl e, d') \<Rightarrow> (Inl e, d')
                | (Inr (output_messages', rs'), d') \<Rightarrow>
                    tool_calls_loop env state rest d' output_messages' rs')))"

text \<open>\<open>state.messages[-1]\<close> raises on an empty list, and \<open>.tool_calls\<close> on a message
  that is not the model's.\<close>

definition CallToolNode_run ::
  "'db env \<Rightarrow> 'db QueryGraphState
     \<Rightarrow> (error + QueryGraphStateUpdate) \<times> 'db SQLDatabaseToolkit" where
  "CallToolNode_run env state =
     (if messages state = [] then (Inl IndexError, sql_toolkit state)
      else
        (case last (messages state) of
           AIMessage c kw tool_calls \<Rightarrow>
             (case tool_calls_loop env state tool_calls (db (sql_toolkit state)) [] [] of
                (Inl e, d') \<Rightarrow> (Inl e, (sql_toolkit state)\<lparr>db := d'\<rparr>)
              | (Inr (output_messages, rs), d') \<Rightarrow>
                  (Inr (state_update output_messages rs), (sql_toolkit state)\<lparr>db := d'\<rparr>))
         | _ \<Rightarrow> (Inl (AttributeError ''tool_calls''), sql_toolkit state)))"

datatype node = call_model | perform_action | END

definition ShouldCallToolCondition_run :: "'db QueryGraphState \<Rightarrow> error + node" where
  "ShouldCallToolCondition_run state =
     (if messages state = [] then Inl IndexError
      else if additional_kwargs (last (messages state)) ''tool_calls'' = None then Inr END
      else Inr perform_action)"

section \<open>The graph (\<open>services/llm_flow/graph.py\<close>)\<close>

text \<open>
  \<open>build_graph\<close> registers the two nodes, the conditional edge out of \<open>call_model\<close>, the
  edge from \<open>perform_action\<close> to \<open>call_model\<close>, and \<open>call_model\<close> as the entry point.
\<close>

definition node_run ::
  "'db env \<Rightarrow> nat \<Rightarrow> node \<Rightarrow> 'db QueryGraphState
     \<Rightarrow> (error + QueryGraphStateUpdate) \<times> 'db SQLDatabaseToolkit" where
  "node_run env calls n state =
     (case n of
        call_model \<Rightarrow> CallModelNode_run env calls state
      | perform_action \<Rightarrow> CallToolNode_run env state
      | END \<Rightarrow> (Inr (state_update [] []), sql_toolkit state))"

definition next_node :: "node \<Rightarrow> 'db QueryGraphState \<Rightarrow> error + node" where
  "next_node n state =
     (case n of
        call_model \<Rightarrow> ShouldCallToolCondition_run state
      | perform_action \<Rightarrow> Inr call_model
      | END \<Rightarrow> Inr END)"

definition entry_point :: node where
  "entry_point = call_model"

text \<open>
  \<open>QueryGraphState\<close> declares \<open>messages\<close> and \<open>results\<close> as plain fields, with no
  reducer: the graph library then stores each value a node's update gives in place of the
  one the state held. One step of the run: the node runs, its update is folded into the
  state, and the edge out of the node is followed on the new state.
\<close>

definition apply_update ::
  "'db QueryGraphState \<Rightarrow> QueryGraphStateUpdate \<Rightarrow> 'db SQLDatabaseToolkit \<Rightarrow> 'db QueryGraphState" where
  "apply_update state u toolkit =
     state\<lparr>messages := upd_messages u, results := upd_results u, sql_toolkit := toolkit\<rparr>"

definition step ::
  "'db env \<Rightarrow> nat \<Rightarrow> node \<Rightarrow> 'db QueryGraphState
     \<Rightarrow> error + QueryGraphStateUpdate \<times> 'db QueryGraphState \<times> node" where
  "step env calls n state =
     (case node_run env calls n state of
        (Inl e, toolkit) \<Rightarrow> Inl e
      | (Inr u, toolkit) \<Rightarrow>
          (case next_node n (apply_update state u toolkit) of
             Inl e \<Rightarrow> Inl e
           | Inr n' \<Rightarrow> Inr (u, apply_update state u toolkit, n')))"

text \<open>
  How a run ends: the graph reached \<open>END\<close>, a node raised, or the run was cut off after
  the number of steps it was given, with the graph still running.
\<close>

datatype outcome = Finished | Raised error | Running

text \<open>
  \<open>app.astream(initial_state)\<close>: after each step the stream gives the node and its
  update; the state after the step is kept beside them. \<open>fuel\<close> bounds the number of
  steps.
\<close>

fun astream ::
  "'db env \<Rightarrow> nat \<Rightarrow> nat \<Rightarrow> node \<Rightarrow> 'db QueryGraphState
     \<Rightarrow> (node \<times> QueryGraphStateUpdate \<times> 'db QueryGraphState) list \<times> outcome" where
  "astream env 0 calls n state = ([], if n = END then Finished else Running)"
| "astream env (Suc fuel) calls n state =
     (if n = END then ([], Finished)
      else
        (case step env calls n state of
           Inl e \<Rightarrow> ([], Raised e)
         | Inr (u, state', n') \<Rightarrow>
             (case astream env fuel (if n = call_model then Suc calls else calls) n' state' of
                (chunks, out) \<Rightarrow> ((n, u, state') # chunks, out))))"

text \<open>
  \<open>QueryGraphService\<close>. The constructor wraps the engine and constructs the toolkit on
  it. \<open>query\<close> starts the run with no message (\<open>_initial_messages\<close>) and no result, on
  the toolkit of the service, and yields the messages and the results of each update.
\<close>

record 'db QueryGraphService =
  svc_db :: 'db
  svc_toolkit :: "'db SQLDatabaseToolkit"

definition QueryGraphService_init :: "'db \<Rightarrow> error + 'db QueryGraphService" where
  "QueryGraphService_init engine =
     (case SQLDatabaseToolkit_init engine of
        Inl e \<Rightarrow> Inl e
      | Inr toolkit \<Rightarrow> Inr \<lparr>svc_db = engine, svc_toolkit = toolkit\<rparr>)"

definition initial_state ::
  "'db QueryGraphService \<Rightarrow> string \<Rightarrow> QueryOptions \<Rightarrow> 'db QueryGraphState" where
  "initial_state service question opts =
     \<lparr>messages = [], results = [], options = opts,
      sql_toolkit = svc_toolkit service,
      user_query = question\<rparr>"

definition QueryGraphService_query ::
  "'db env \<Rightarrow> nat \<Rightarrow> 'db QueryGraphService \<Rightarrow> string \<Rightarrow> QueryOptions
     \<Rightarrow> (message list \<times> result list) list \<times> outcome" where
  "QueryGraphService_query env fuel service question opts =
     (case astream env fuel 0 entry_point (initial_state service question opts) of
        (chunks, out) \<Rightarrow> (map (\<lambda>(n, u, state'). (upd_messages u, upd_results u)) chunks, out))"

section \<open>The session store and the endpoints (\<open>state.py\<close>, \<open>api/query/router.py\<close>)\<close>

type_synonym 'db SessionStore = "string \<rightharpoonup> 'db"

definition add_session :: "'db SessionStore \<Rightarrow> string \<Rightarrow> 'db \<Rightarrow> 'db SessionStore" where
  "add_session store session_id engine = store(session_id \<mapsto> engine)"

definition get_engine :: "'db SessionStore \<Rightarrow> string \<Rightarrow> 'db option" where
  "get_engine store session_id = store session_id"

text \<open>A server-sent event is kept as its event name and its data, before they are
  encoded as text.\<close>

datatype sse_data = ResultData result | OkData bool

datatype sse = SSE string sse_data

definition to_sse :: "string \<Rightarrow> sse_data \<Rightarrow> sse" where
  "to_sse event data = SSE event data"

text \<open>The body of \<open>stream()\<close>: the events of each yielded pair, then \<open>END\<close> once the
  generator of the service is exhausted. When the run raises, or does not end, \<open>END\<close> is
  not reached.\<close>

fun stream_events :: "(message list \<times> result list) list \<Rightarrow> sse list" where
  "stream_events [] = []"
| "stream_events ((ms, rs) # chunks) =
     (if rs \<noteq> [] then map (\<lambda>r. to_sse ''ADD_RESULT'' (ResultData r)) rs else [])
     @ stream_events chunks"

definition stream :: "(message list \<times> result list) list \<times> outcome \<Rightarrow> sse list \<times> outcome" where
  "stream run =
     (case run of
        (chunks, out) \<Rightarrow>
          (stream_events chunks @ (if out = Finished then [to_sse ''END'' (OkData True)] else []),
           out))"

text \<open>
  \<open>QueryOptions(secure_data=secure_data)\<close>: the other fields take their defaults.
\<close>

definition new_QueryOptions :: "bool \<Rightarrow> QueryOptions" where
  "new_QueryOptions secure =
     \<lparr>secure_data = secure, openai_api_key = None, openai_base_url = None,
      llm_model = ''gpt-4o-mini''\<rparr>"

text \<open>
  The handler \<open>query\<close>: the session is looked up, the service is constructed, and the
  response streams the events. What the lookup or the constructor raises leaves the
  handler before the response exists, so before any event.
\<close>

definition query ::
  "'db env \<Rightarrow> nat \<Rightarrow> 'db SessionStore \<Rightarrow> string \<Rightarrow> string \<Rightarrow> bool
     \<Rightarrow> error + sse list \<times> outcome" where
  "query env fuel store session_id prompt secure =
     (case get_engine store session_id of
        None \<Rightarrow> Inl (RuntimeError ''Invalid session_id. Upload CSV first.'')
      | Some engine \<Rightarrow>
          (case QueryGraphService_init engine of
             Inl e \<Rightarrow> Inl e
           | Inr query_service \<Rightarrow>
               Inr (stream (QueryGraphService_query env fuel query_service prompt
                      (new_QueryOptions secure)))))"

text \<open>The \<open>except\<close> branch of \<open>execute_sql\<close>, on \<open>error_msg = str(e)\<close>.\<close>

definition sql_error :: "string \<Rightarrow> error" where
  "sql_error error_msg =
     (if str_in ''no such column'' (lower error_msg)
        then HTTPException 400 (''SQL Error: Column not found. '' @ error_msg)
      else if str_in ''syntax error'' (lower error_msg)
        then HTTPException 400 (''SQL Syntax Error: '' @ error_msg)
      else HTTPException 500 (''SQL execution failed: '' @ error_msg))"

definition execute_sql ::
  "'db env \<Rightarrow> 'db SessionStore \<Rightarrow> string \<Rightarrow> string \<Rightarrow> bool
     \<Rightarrow> error + string list \<times> pyval list list \<times> bool" where
  "execute_sql env store session_id sql for_chart =
     (case get_engine store session_id of
        None \<Rightarrow> Inl (HTTPException 400 ''Invalid session_id. Upload CSV first.'')
      | Some engine \<Rightarrow>
          (case fst (run_sql env engine sql) of
             Inr (columns, rows) \<Rightarrow> Inr (columns, map list_of rows, for_chart)
           | Inl e \<Rightarrow> Inl (sql_error (str_exc e))))"

section \<open>The classification as the specification words it\<close>

text \<open>
  The three categories of the direct SQL boundary, and the rule in the specification's
  words: a message containing \<open>no such column\<close>, otherwise one containing
  \<open>syntax error\<close>, otherwise the generic category. \<open>category_of\<close> reads the category of a
  response of the endpoint off its status and the head of its message.
\<close>

datatype category = ColumnNotFound | SyntaxError | ExecutionFailure

definition spec_category :: "string \<Rightarrow> category" where
  "spec_category error_msg =
     (if str_in ''no such column'' error_msg then ColumnNotFound
      else if str_in ''syntax error'' error_msg then SyntaxError
      else ExecutionFailure)"

fun category_of :: "error \<Rightarrow> category option" where
  "category_of (HTTPException status detail) =
     (if status = 400 \<and> prefix ''SQL Error: Column not found. '' detail then Some ColumnNotFound
      else if status = 400 \<and> prefix ''SQL Syntax Error: '' detail then Some SyntaxError
      else if status = 500 \<and> prefix ''SQL execution failed: '' detail then Some ExecutionFailure
      else None)"
| "category_of e = None"

section \<open>A small session to run the definitions on\<close>

text \<open>
  One table \<open>data\<close> with the columns \<open>id\<close> and \<open>name\<close> and two rows. The engine answers
  one statement; any other \<open>SELECT\<close> names a table it does not have, and any other text
  is not SQL. The inspector knows no other table. The model's answers are a parameter.
\<close>

definition demo_rows :: "row list" where
  "demo_rows = [Row [PInt 1, PStr ''ann''], Row [PInt 2, PStr ''bob'']]"

text \<open>The text of the engine's exception: the driver's message, then the statement.\<close>

definition demo_error :: "string \<Rightarrow> string \<Rightarrow> string" where
  "demo_error driver_msg q =
     ''(sqlite3.OperationalError) '' @ driver_msg @ [CHR 0x0A] @ ''[SQL: '' @ q @ '']''"

definition demo_execute :: "unit \<Rightarrow> string \<Rightarrow> (string + string list \<times> row list) \<times> unit" where
  "demo_execute d q =
     (if q = ''SELECT id, name FROM data'' then (Inr ([''id'', ''name''], demo_rows), d)
      else if prefix ''SELECT '' q
        then (Inl (demo_error
                     (''no such table: '' @ rev (takeWhile (\<lambda>c. c \<noteq> CHR '' '') (rev q))) q), d)
      else (Inl (demo_error
                   (''near \"'' @ takeWhile (\<lambda>c. c \<noteq> CHR '' '') q @ ''\": syntax error'') q), d))"

definition demo_env :: "(nat \<Rightarrow> string + message) \<Rightarrow> unit env" where
  "demo_env answers =
     \<lparr>engine_execute = demo_execute,
      inspector_table_names = (\<lambda>d. [''data'']),
      inspector_columns = (\<lambda>d name.
         if name = ''data'' then Inr [(''id'', ''INTEGER''), (''name'', ''TEXT'')]
         else Inl name),
      model_client = (\<lambda>model base_url api_key. None),
      model_invoke = (\<lambda>rq calls. answers calls),
      validation_text = (\<lambda>schema args. ''validation error for '' @ schema),
      str_list = (\<lambda>xs. ''['' @ join '', '' (map (\<lambda>x. [CHR 0x27] @ x @ [CHR 0x27]) xs) @ '']'')\<rparr>"

definition demo_store :: "unit SessionStore" where
  "demo_store = add_session Map.empty ''s1'' ()"


definition demo_schema_call :: "string \<Rightarrow> tool_call" where
  "demo_schema_call names =
     \<lparr>tc_name = ''sql_db_schema'', tc_args = [''table_names'' \<mapsto> PStr names],
      tc_id = Some ''call_2''\<rparr>"

definition demo_list_call :: tool_call where
  "demo_list_call =
     \<lparr>tc_name = ''list_sql_tables'', tc_args = Map.empty, tc_id = Some ''call_3''\<rparr>"

definition demo_request :: "tool_call list \<Rightarrow> message" where
  "demo_request calls = AIMessage [] [''tool_calls'' \<mapsto> ''[...]''] calls"

definition demo_final :: message where
  "demo_final = AIMessage ''The table has two rows.'' Map.empty []"

definition demo_state :: "message \<Rightarrow> unit QueryGraphState" where
  "demo_state last_message =
     \<lparr>messages = [last_message],
      results = [SQLQueryStringResult ''SELECT id, name FROM data'' False],
      options = new_QueryOptions True,
      sql_toolkit = \<lparr>db = ()\<rparr>,
      user_query = ''how many rows?''\<rparr>"

section \<open>The transition rule as the specification words it\<close>

text \<open>
  After a planning step the loop is done when the latest message carries no tool
  invocations and goes to the execution step otherwise; after an execution step it goes
  back to planning. A run obeys the rule when every step it reports is the step the rule
  gave after the step before, and it finishes only where the rule says it is done.
\<close>

definition transition_rule :: "node \<Rightarrow> 'db QueryGraphState \<Rightarrow> node" where
  "transition_rule n state =
     (case n of
        call_model \<Rightarrow>
          if additional_kwargs (last (messages state)) ''tool_calls'' = None then END
          else perform_action
      | perform_action \<Rightarrow> call_model
      | END \<Rightarrow> END)"

fun obeys ::
  "node \<Rightarrow> (node \<times> QueryGraphStateUpdate \<times> 'db QueryGraphState) list \<Rightarrow> outcome \<Rightarrow> bool" where
  "obeys n [] out = (out = Finished \<longrightarrow> n = END)"
| "obeys n ((n1, u1, s1) # chunks) out =
     (n1 = n \<and> n \<noteq> END \<and> obeys (transition_rule n1 s1) chunks out)"

text \<open>The state with the secure flag of its options set.\<close>

definition with_secure_data :: "bool \<Rightarrow> 'db QueryGraphState \<Rightarrow> 'db QueryGraphState" where
  "with_secure_data b state = state\<lparr>options := (options state)\<lparr>secure_data := b\<rparr>\<rparr>"

section \<open>Facts about the string functions\<close>

text \<open>\<open>str_in\<close> decides whether the pattern occurs as a contiguous run.\<close>

lemma str_in_iff: "str_in p s \<longleftrightarrow> (\<exists>a b. s = a @ p @ b)"
proof (induction s)
  case Nil
  then show ?case by auto
next
  case (Cons c cs)
  have "(\<exists>a b. c # cs = a @ p @ b) \<longleftrightarrow> prefix p (c # cs) \<or> (\<exists>a b. cs = a @ p @ b)"
  proof
    assume "\<exists>a b. c # cs = a @ p @ b"
    then obtain a b where ab: "c # cs = a @ p @ b" by blast
    show "prefix p (c # cs) \<or> (\<exists>a b. cs = a @ p @ b)"
    proof (cases a)
      case Nil
      with ab show ?thesis by (auto simp: prefix_def)
    next
      case (Cons x a')
      with ab have "cs = a' @ p @ b" by simp
      then show ?thesis by blast
    qed
  next
    assume "prefix p (c # cs) \<or> (\<exists>a b. cs = a @ p @ b)"
    then show "\<exists>a b. c # cs = a @ p @ b"
    proof
      assume "prefix p (c # cs)"
      then obtain b where "c # cs = p @ b" by (auto simp: prefix_def)
      then have "c # cs = [] @ p @ b" by simp
      then show ?thesis by blast
    next
      assume "\<exists>a b. cs = a @ p @ b"
      then obtain a b where "cs = a @ p @ b" by blast
      then have "c # cs = (c # a) @ p @ b" by simp
      then show ?thesis by blast
    qed
  qed
  with Cons.IH show ?case by simp
qed

text \<open>
  \<open>split\<close> cuts at every delimiter and nowhere else: joining the segments with the
  delimiter gives the string back, and no segment holds the delimiter.
\<close>

lemma split_not_Nil: "split d s \<noteq> []"
  by (induction s) (auto split: list.splits)

lemma join_Cons: "ys \<noteq> [] \<Longrightarrow> join sep (x # ys) = x @ sep @ join sep ys"
  by (cases ys) auto

lemma join_split: "join [d] (split d s) = s"
proof (induction s)
  case Nil
  show ?case by simp
next
  case (Cons c cs)
  obtain w ws where w: "split d cs = w # ws"
    using split_not_Nil [of d cs] by (cases "split d cs") auto
  show ?case
  proof (cases "c = d")
    case True
    then show ?thesis using Cons.IH by (simp add: join_Cons split_not_Nil)
  next
    case False
    then show ?thesis using Cons.IH w by (cases ws) auto
  qed
qed

lemma split_no_delim: "w \<in> set (split d s) \<Longrightarrow> d \<notin> set w"
proof (induction s arbitrary: w)
  case Nil
  then show ?case by simp
next
  case (Cons c cs)
  then show ?case by (auto split: if_splits list.splits)
qed

lemma split_subset: "w \<in> set (split d s) \<Longrightarrow> set w \<subseteq> set s"
proof (induction s arbitrary: w)
  case Nil
  then show ?case by simp
next
  case (Cons c cs)
  then show ?case by (fastforce split: if_splits list.splits)
qed

text \<open>
  \<open>strip\<close> removes whitespace at both ends only: what it leaves starts and ends with a
  character that is not whitespace, and it is empty just when the string is all
  whitespace.
\<close>

lemma strip_Nil_iff: "strip s = [] \<longleftrightarrow> (\<forall>c\<in>set s. isspace c)"
proof -
  have "strip s = [] \<longleftrightarrow> (\<forall>c\<in>set (dropWhile isspace s). isspace c)"
    by (simp add: strip_def dropWhile_eq_Nil_conv)
  also have "\<dots> \<longleftrightarrow> dropWhile isspace s = []"
    using hd_dropWhile [of isspace s]
    by (cases "dropWhile isspace s") (auto simp: dropWhile_eq_Nil_conv dest: set_dropWhileD)
  also have "\<dots> \<longleftrightarrow> (\<forall>c\<in>set s. isspace c)"
    by (simp add: dropWhile_eq_Nil_conv)
  finally show ?thesis .
qed

lemma set_strip: "set (strip s) \<subseteq> set s"
  by (auto simp: strip_def dest!: set_dropWhileD)

lemma strip_suffix:
  "dropWhile isspace s = strip s @ rev (takeWhile isspace (rev (dropWhile isspace s)))"
proof -
  let ?zs = "dropWhile isspace s"
  have "rev (takeWhile isspace (rev ?zs) @ dropWhile isspace (rev ?zs)) = ?zs"
    by (simp only: takeWhile_dropWhile_id rev_rev_ident)
  then show ?thesis by (simp only: rev_append strip_def)
qed

lemma strip_ends:
  assumes "strip s \<noteq> []"
  shows "\<not> isspace (hd (strip s)) \<and> \<not> isspace (last (strip s))"
proof -
  let ?zs = "dropWhile isspace s"
  have z: "?zs \<noteq> []"
  proof
    assume "?zs = []"
    then have "strip s = []" by (simp add: strip_def del: dropWhile_eq_Nil_conv)
    with assms show False by simp
  qed
  have r: "dropWhile isspace (rev ?zs) \<noteq> []" using assms by (simp add: strip_def)
  have "last (strip s) = hd (dropWhile isspace (rev ?zs))"
    by (simp add: strip_def last_rev)
  then have l: "\<not> isspace (last (strip s))" using hd_dropWhile [OF r] by simp
  have "hd ?zs = hd (strip s @ rev (takeWhile isspace (rev ?zs)))"
    using strip_suffix [of s] by simp
  also have "\<dots> = hd (strip s)" using assms by (rule hd_append2)
  finally have "hd ?zs = hd (strip s)" .
  then have "\<not> isspace (hd (strip s))" using hd_dropWhile [OF z] by simp
  with l show ?thesis by simp
qed

lemma strip_decomp:
  "\<exists>l r. s = l @ strip s @ r \<and> (\<forall>c\<in>set l. isspace c) \<and> (\<forall>c\<in>set r. isspace c)"
proof (intro exI conjI)
  show "s = takeWhile isspace s @ strip s @ rev (takeWhile isspace (rev (dropWhile isspace s)))"
    using strip_suffix [of s] takeWhile_dropWhile_id [of isspace s] by simp
  show "\<forall>c\<in>set (takeWhile isspace s). isspace c"
    by (auto dest: set_takeWhileD)
  show "\<forall>c\<in>set (rev (takeWhile isspace (rev (dropWhile isspace s)))). isspace c"
    by (auto dest: set_takeWhileD)
qed

text \<open>The names the schema tool looks up.\<close>

lemma map_filter_nonempty:
  "map f (filter (\<lambda>t. f t \<noteq> []) xs) = filter (\<lambda>t. t \<noteq> []) (map f xs)"
  by (induction xs) simp_all

lemma stripped_names_alt:
  "stripped_names s = filter (\<lambda>t. t \<noteq> []) (map strip (split (CHR '','') s))"
  unfolding stripped_names_def by (rule map_filter_nonempty)

lemma stripped_names_blank:
  assumes "\<forall>c\<in>set s. c = CHR '','' \<or> isspace c"
  shows "stripped_names s = []"
proof -
  have blank: "strip w = []" if w: "w \<in> set (split (CHR '','') s)" for w
  proof -
    have sub: "set w \<subseteq> set s" using w by (rule split_subset)
    have nc: "CHR '','' \<notin> set w" using w by (rule split_no_delim)
    have "isspace c" if c: "c \<in> set w" for c
    proof -
      from c sub have "c \<in> set s" by (rule subsetD [rotated])
      with assms have "c = CHR '','' \<or> isspace c" by (rule bspec)
      moreover from c nc have "c \<noteq> CHR '',''" by auto
      ultimately show ?thesis by auto
    qed
    then show ?thesis unfolding strip_Nil_iff by (rule ballI)
  qed
  have "filter (\<lambda>t. strip t \<noteq> []) (split (CHR '','') s) = []"
    unfolding filter_empty_conv using blank by (intro ballI) (rule notnotD, simp)
  then show ?thesis unfolding stripped_names_def by (simp only: list.map)
qed

lemma stripped_names_shape:
  assumes "n \<in> set (stripped_names s)"
  shows "n \<noteq> [] \<and> CHR '','' \<notin> set n \<and> \<not> isspace (hd n) \<and> \<not> isspace (last n)"
proof -
  from assms obtain w where w: "w \<in> set (split (CHR '','') s)" "strip w \<noteq> []" "n = strip w"
    by (auto simp: stripped_names_def)
  have "CHR '','' \<notin> set w" using w(1) by (rule split_no_delim)
  then have "CHR '','' \<notin> set n" using set_strip [of w] w(3) by blast
  then show ?thesis using w strip_ends [of w] by simp
qed

section \<open>The direct SQL boundary\<close>

lemma category_of_sql_error: "category_of (sql_error m) = Some (spec_category (lower m))"
  by (simp add: sql_error_def spec_category_def)

text \<open>
  C7, as the specification states it: the category of a failed execution is the one the
  rule gives on the error message itself. The endpoint searches the lower-cased message
  instead, so a message that holds \<open>Syntax Error\<close> only in capitals is answered as a
  syntax error where the rule as stated gives the generic category. Here the engine's
  message repeats the statement, which names a column alias \<open>"Syntax Error"\<close> on a
  table that does not exist.
\<close>

theorem classification_counterexample:
  "execute_sql (demo_env (\<lambda>n. Inl [])) demo_store ''s1''
       ''SELECT 1 AS \"Syntax Error\" FROM t'' False
     = Inl (HTTPException 400 (''SQL Syntax Error: '' @
              demo_error ''no such table: t'' ''SELECT 1 AS \"Syntax Error\" FROM t''))
   \<and> spec_category (demo_error ''no such table: t'' ''SELECT 1 AS \"Syntax Error\" FROM t'')
       = ExecutionFailure"
  by code_simp

text \<open>
  C7, amended: for every SQL execution error on the direct SQL boundary the category
  follows the substring rule applied to the lower-cased error message. When the
  lower-cased message contains \<open>no such column\<close> the answer is status 400 with
  \<open>SQL Error: Column not found.\<close> before the message; otherwise, when it contains
  \<open>syntax error\<close>, status 400 with \<open>SQL Syntax Error:\<close> before the message; otherwise
  status 500 with \<open>SQL execution failed:\<close> before the message.
\<close>

theorem execute_sql_error_category:
  assumes "get_engine store session_id = Some engine"
    and "engine_execute env engine sql = (Inl msg, d')"
  shows "execute_sql env store session_id sql for_chart =
           Inl (if \<exists>a b. lower msg = a @ ''no such column'' @ b
                  then HTTPException 400 (''SQL Error: Column not found. '' @ msg)
                else if \<exists>a b. lower msg = a @ ''syntax error'' @ b
                  then HTTPException 400 (''SQL Syntax Error: '' @ msg)
                else HTTPException 500 (''SQL execution failed: '' @ msg))
         \<and> category_of (sql_error msg) = Some (spec_category (lower msg))"
proof -
  have "execute_sql env store session_id sql for_chart = Inl (sql_error msg)"
    using assms by (simp add: execute_sql_def run_sql_def)
  moreover have "sql_error msg =
           (if \<exists>a b. lower msg = a @ ''no such column'' @ b
              then HTTPException 400 (''SQL Error: Column not found. '' @ msg)
            else if \<exists>a b. lower msg = a @ ''syntax error'' @ b
              then HTTPException 400 (''SQL Syntax Error: '' @ msg)
            else HTTPException 500 (''SQL execution failed: '' @ msg))"
    unfolding sql_error_def str_in_iff by (rule refl)
  ultimately show ?thesis
    using category_of_sql_error [of msg] by (simp only:)
qed

theorem execute_sql_error_category_witness:
  "get_engine demo_store ''s1'' = Some ()
   \<and> engine_execute (demo_env (\<lambda>n. Inl [])) () ''SELEC 1''
       = (Inl (demo_error ''near \"SELEC\": syntax error'' ''SELEC 1''), ())
   \<and> execute_sql (demo_env (\<lambda>n. Inl [])) demo_store ''s1'' ''SELEC 1'' False
       = Inl (HTTPException 400
               (''SQL Syntax Error: '' @ demo_error ''near \"SELEC\": syntax error'' ''SELEC 1''))"
proof -
  have a: "get_engine demo_store ''s1'' = Some ()"
    by (simp add: get_engine_def demo_store_def add_session_def)
  have b: "engine_execute (demo_env (\<lambda>n. Inl [])) () ''SELEC 1''
       = (Inl (demo_error ''near \"SELEC\": syntax error'' ''SELEC 1''), ())"
    by (simp add: demo_env_def demo_execute_def)
  have c: "str_in ''syntax error'' (lower (demo_error ''near \"SELEC\": syntax error'' ''SELEC 1''))"
    by code_simp
  have d: "\<not> str_in ''no such column''
               (lower (demo_error ''near \"SELEC\": syntax error'' ''SELEC 1''))"
    by code_simp
  from execute_sql_error_category [OF a b, of False] c d
  show ?thesis using a b by (simp add: str_in_iff)
qed

section \<open>The schema tool\<close>

text \<open>On the strings of this development the whitespace characters are twelve.\<close>

lemma isspace_iff:
  "isspace c \<longleftrightarrow>
     (of_char c :: nat) \<in> {0x09, 0x0A, 0x0B, 0x0C, 0x0D, 0x1C, 0x1D, 0x1E, 0x1F, 0x20, 0x85, 0xA0}"
proof -
  have b: "(of_char c :: nat) < 256" by (rule nat_of_char_less_256)
  have "n < 256 \<Longrightarrow>
          isspace_codepoint n \<longleftrightarrow>
            n \<in> {0x09, 0x0A, 0x0B, 0x0C, 0x0D, 0x1C, 0x1D, 0x1E, 0x1F, 0x20, 0x85, 0xA0}"
    for n :: nat
    unfolding isspace_codepoint_def insert_iff empty_iff by presburger
  from this [OF b] show ?thesis unfolding isspace_def .
qed

lemma strip_shape:
  "\<exists>l r. w = l @ strip w @ r \<and> (\<forall>c\<in>set l. isspace c) \<and> (\<forall>c\<in>set r. isspace c)
         \<and> (strip w \<noteq> [] \<longrightarrow> \<not> isspace (hd (strip w)) \<and> \<not> isspace (last (strip w)))"
proof -
  from strip_decomp [of w] obtain l r where
    d: "w = l @ strip w @ r" "\<forall>c\<in>set l. isspace c" "\<forall>c\<in>set r. isspace c"
    by (elim exE conjE)
  have e: "strip w \<noteq> [] \<longrightarrow> \<not> isspace (hd (strip w)) \<and> \<not> isspace (last (strip w))"
    using strip_ends [of w] by (rule impI)
  from d e show ?thesis by (intro exI conjI)
qed

text \<open>
  \<open>get_table_info\<close> renders the names in their order, and stops at the first name the
  inspector does not know.
\<close>

lemma table_infos_known:
  assumes "\<forall>n\<in>set names. \<exists>cols. inspector_columns env d n = Inr cols"
  shows "table_infos env d names =
           Inr (map (\<lambda>n. table_info n
                           (case inspector_columns env d n of Inr cols \<Rightarrow> cols | Inl m \<Rightarrow> []))
                  names)"
  using assms
proof (induction names)
  case Nil
  show ?case by simp
next
  case (Cons n ns)
  from Cons.prems obtain cols where c: "inspector_columns env d n = Inr cols" by auto
  from Cons.prems have "\<forall>n\<in>set ns. \<exists>cols. inspector_columns env d n = Inr cols" by simp
  from Cons.IH [OF this] c show ?case by simp
qed

lemma table_infos_unknown:
  assumes "i < length names"
    and "inspector_columns env d (names ! i) = Inl m"
    and "\<forall>j<i. \<exists>cols. inspector_columns env d (names ! j) = Inr cols"
  shows "table_infos env d names = Inl (DBError m)"
  using assms
proof (induction names arbitrary: i)
  case Nil
  then show ?case by simp
next
  case (Cons n ns)
  show ?case
  proof (cases i)
    case 0
    with Cons.prems(2) show ?thesis by simp
  next
    case (Suc k)
    then have "0 < i" by simp
    with Cons.prems(3) [rule_format, of 0]
    have "\<exists>cols. inspector_columns env d ((n # ns) ! 0) = Inr cols" by simp
    then obtain cols where c: "inspector_columns env d n = Inr cols" by auto
    have k: "k < length ns" using Cons.prems(1) Suc by simp
    have u: "inspector_columns env d (ns ! k) = Inl m" using Cons.prems(2) Suc by simp
    have b: "\<forall>j<k. \<exists>cols. inspector_columns env d (ns ! j) = Inr cols"
    proof (intro allI impI)
      fix j assume "j < k"
      then have "Suc j < i" using Suc by simp
      with Cons.prems(3) [rule_format, of "Suc j"]
      have "\<exists>cols. inspector_columns env d ((n # ns) ! Suc j) = Inr cols" by simp
      then show "\<exists>cols. inspector_columns env d (ns ! j) = Inr cols" by simp
    qed
    from Cons.IH [OF k u b] c show ?thesis by simp
  qed
qed

text \<open>
  C10: the table-name argument of the schema tool is split on commas, each segment is
  stripped of whitespace at both ends and the segments that strip to the empty string are
  dropped before any lookup; the whitespace characters are the code points
  \<open>0x09\<close> to \<open>0x0d\<close>, \<open>0x1c\<close> to \<open>0x20\<close>, \<open>0x85\<close> and \<open>0xa0\<close>. An argument of commas and
  whitespace only gives no name, the empty schema text and no lookup failure. When the
  inspector knows each of the \<open>k\<close> surviving names, the text is the \<open>k\<close> renderings
  \<open>CREATE TABLE name (column type, ...)\<close> of the names, in their order, joined by a blank
  line; otherwise the tool raises the inspector's error for the first name it does not
  know.
\<close>

theorem describe_schema_names:
  "(\<forall>c. isspace c \<longleftrightarrow>
          (of_char c :: nat)
            \<in> {0x09, 0x0A, 0x0B, 0x0C, 0x0D, 0x1C, 0x1D, 0x1E, 0x1F, 0x20, 0x85, 0xA0})
   \<and> join '','' (split (CHR '','') s) = s
   \<and> (\<forall>w\<in>set (split (CHR '','') s). CHR '','' \<notin> set w)
   \<and> (\<forall>w. \<exists>l r. w = l @ strip w @ r \<and> (\<forall>c\<in>set l. isspace c) \<and> (\<forall>c\<in>set r. isspace c)
              \<and> (strip w \<noteq> [] \<longrightarrow> \<not> isspace (hd (strip w)) \<and> \<not> isspace (last (strip w))))
   \<and> stripped_names s = filter (\<lambda>t. t \<noteq> []) (map strip (split (CHR '','') s))
   \<and> ((\<forall>c\<in>set s. c = CHR '','' \<or> isspace c) \<longrightarrow>
        stripped_names s = [] \<and> InfoTablesTool_run env d s = Inr [])
   \<and> ((\<forall>n\<in>set (stripped_names s). \<exists>cols. inspector_columns env d n = Inr cols) \<longrightarrow>
        InfoTablesTool_run env d s =
          Inr (join [CHR 0x0A, CHR 0x0A]
                 (map (\<lambda>n. ''CREATE TABLE '' @ n @ '' ('' @
                            join '', ''
                              (map (\<lambda>(c, t). c @ '' '' @ t)
                                 (case inspector_columns env d n of
                                    Inr cols \<Rightarrow> cols | Inl m \<Rightarrow> [])) @
                            '')'')
                    (stripped_names s))))
   \<and> (\<forall>i m. i < length (stripped_names s)
           \<and> inspector_columns env d (stripped_names s ! i) = Inl m
           \<and> (\<forall>j<i. \<exists>cols. inspector_columns env d (stripped_names s ! j) = Inr cols) \<longrightarrow>
         InfoTablesTool_run env d s = Inl (DBError m))"
proof (intro conjI allI impI)
  fix c
  show "isspace c \<longleftrightarrow>
          (of_char c :: nat)
            \<in> {0x09, 0x0A, 0x0B, 0x0C, 0x0D, 0x1C, 0x1D, 0x1E, 0x1F, 0x20, 0x85, 0xA0}"
    by (rule isspace_iff)
next
  show "join '','' (split (CHR '','') s) = s"
    using join_split [of "CHR '',''" s] by simp
  show "\<forall>w\<in>set (split (CHR '','') s). CHR '','' \<notin> set w"
    by (intro ballI) (rule split_no_delim)
  show "stripped_names s = filter (\<lambda>t. t \<noteq> []) (map strip (split (CHR '','') s))"
    by (rule stripped_names_alt)
next
  fix w
  show "\<exists>l r. w = l @ strip w @ r \<and> (\<forall>c\<in>set l. isspace c) \<and> (\<forall>c\<in>set r. isspace c)
              \<and> (strip w \<noteq> [] \<longrightarrow> \<not> isspace (hd (strip w)) \<and> \<not> isspace (last (strip w)))"
    by (rule strip_shape)
next
  assume "\<forall>c\<in>set s. c = CHR '','' \<or> isspace c"
  then show e: "stripped_names s = []" by (rule stripped_names_blank)
  then show "InfoTablesTool_run env d s = Inr []"
    by (simp add: InfoTablesTool_run_def get_table_info_def)
next
  assume a: "\<forall>n\<in>set (stripped_names s). \<exists>cols. inspector_columns env d n = Inr cols"
  have r: "(\<lambda>n. table_info n (case inspector_columns env d n of Inr cols \<Rightarrow> cols | Inl m \<Rightarrow> []))
         = (\<lambda>n. ''CREATE TABLE '' @ n @ '' ('' @
                            join '', ''
                              (map (\<lambda>(c, t). c @ '' '' @ t)
                                 (case inspector_columns env d n of
                                    Inr cols \<Rightarrow> cols | Inl m \<Rightarrow> [])) @
                            '')'')"
    by (simp add: table_info_def)
  show "InfoTablesTool_run env d s =
          Inr (join [CHR 0x0A, CHR 0x0A]
                 (map (\<lambda>n. ''CREATE TABLE '' @ n @ '' ('' @
                            join '', ''
                              (map (\<lambda>(c, t). c @ '' '' @ t)
                                 (case inspector_columns env d n of
                                    Inr cols \<Rightarrow> cols | Inl m \<Rightarrow> [])) @
                            '')'')
                    (stripped_names s)))"
    unfolding r [symmetric]
    by (simp add: InfoTablesTool_run_def get_table_info_def table_infos_known [OF a])
next
  fix i m
  assume "i < length (stripped_names s)
           \<and> inspector_columns env d (stripped_names s ! i) = Inl m
           \<and> (\<forall>j<i. \<exists>cols. inspector_columns env d (stripped_names s ! j) = Inr cols)"
  then have "table_infos env d (stripped_names s) = Inl (DBError m)"
    by (intro table_infos_unknown [of i]) simp_all
  then show "InfoTablesTool_run env d s = Inl (DBError m)"
    by (simp add: InfoTablesTool_run_def get_table_info_def)
qed

theorem describe_schema_names_witness:
  "stripped_names ([CHR 0x09] @ ''data'' @ [CHR 0xA0, CHR 0x0A] @ '', , '' @ [CHR 0x85] @ '',data'')
     = [''data'', ''data'']
   \<and> InfoTablesTool_run (demo_env (\<lambda>n. Inl [])) ()
       ([CHR 0x09] @ ''data'' @ [CHR 0xA0, CHR 0x0A] @ '', , '' @ [CHR 0x85] @ '',data'')
     = Inr (''CREATE TABLE data (id INTEGER, name TEXT)'' @ [CHR 0x0A, CHR 0x0A] @
            ''CREATE TABLE data (id INTEGER, name TEXT)'')
   \<and> InfoTablesTool_run (demo_env (\<lambda>n. Inl [])) ()
       ('' '' @ [CHR 0x09] @ '','' @ [CHR 0xA0] @ '',, '' @ [CHR 0x85, CHR 0x0D, CHR 0x1F]) = Inr []
   \<and> InfoTablesTool_run (demo_env (\<lambda>n. Inl [])) () ''data, orders ,users''
     = Inl (DBError ''orders'')"
proof -
  let ?env = "demo_env (\<lambda>n. Inl [])"
  let ?s1 = "[CHR 0x09] @ ''data'' @ [CHR 0xA0, CHR 0x0A] @ '', , '' @ [CHR 0x85] @ '',data''"
  let ?s2 = "'' '' @ [CHR 0x09] @ '','' @ [CHR 0xA0] @ '',, '' @ [CHR 0x85, CHR 0x0D, CHR 0x1F]"
  let ?s3 = "''data, orders ,users''"
  have n1: "stripped_names ?s1 = [''data'', ''data'']" by (simp add: stripped_names_def strip_def isspace_def isspace_codepoint_def)
  have k1: "\<forall>n\<in>set (stripped_names ?s1). \<exists>cols. inspector_columns ?env () n = Inr cols"
    unfolding n1 by (simp add: demo_env_def)
  have b2: "\<forall>c\<in>set ?s2. c = CHR '','' \<or> isspace c"
    by (simp add: isspace_def isspace_codepoint_def)
  have n3: "stripped_names ?s3 = [''data'', ''orders'', ''users'']" by (simp add: stripped_names_def strip_def isspace_def isspace_codepoint_def)
  have u3: "(1::nat) < length (stripped_names ?s3)
           \<and> inspector_columns ?env () (stripped_names ?s3 ! 1) = Inl ''orders''
           \<and> (\<forall>j<1. \<exists>cols. inspector_columns ?env () (stripped_names ?s3 ! j) = Inr cols)"
    unfolding n3 by (simp add: demo_env_def)
  note t1 = describe_schema_names [of ?s1 ?env "()"]
  note t2 = describe_schema_names [of ?s2 ?env "()"]
  note t3 = describe_schema_names [of ?s3 ?env "()"]
  from t1 [THEN conjunct2, THEN conjunct2, THEN conjunct2, THEN conjunct2, THEN conjunct2,
      THEN conjunct2, THEN conjunct1, THEN mp, OF k1]
  have r1: "InfoTablesTool_run ?env () ?s1
     = Inr (''CREATE TABLE data (id INTEGER, name TEXT)'' @ [CHR 0x0A, CHR 0x0A] @
            ''CREATE TABLE data (id INTEGER, name TEXT)'')"
    unfolding n1 by (simp add: demo_env_def)
  from t2 [THEN conjunct2, THEN conjunct2, THEN conjunct2, THEN conjunct2, THEN conjunct2,
      THEN conjunct1, THEN mp, OF b2]
  have r2: "InfoTablesTool_run ?env () ?s2 = Inr []" by (rule conjunct2)
  from t3 [THEN conjunct2, THEN conjunct2, THEN conjunct2, THEN conjunct2, THEN conjunct2,
      THEN conjunct2, THEN conjunct2, THEN spec, THEN spec, THEN mp, OF u3]
  have r3: "InfoTablesTool_run ?env () ?s3 = Inl (DBError ''orders'')" .
  from n1 r1 r2 r3 show ?thesis by (intro conjI)
qed

section \<open>The SQL tool\<close>









section \<open>Failures the execution step does not catch\<close>

text \<open>
  C4 does not hold of the code. \<open>InfoTablesTool.get_response\<close> and the loop of
  \<open>CallToolNode.run\<close> have no handler: on a session whose only table is \<open>data\<close>, the
  schema tool asked for the table \<open>orders\<close> raises the inspector's error, and so does
  the body of the loop, with no tool message; the SQL tool itself raises when the
  arguments hold no \<open>query\<close>. An execution step on a message with the two tool calls
  \<open>sql_db_schema\<close> and \<open>list_sql_tables\<close> raises at the first, where it reads
  \<open>tool_map\<close>, and the second call is never run.
\<close>

theorem schema_failure_not_caught:
  "InfoTablesTool_get_response (demo_env (\<lambda>n. Inl []))  ()
       (demo_state (demo_request [demo_schema_call ''orders'', demo_list_call]))
       (tc_args (demo_schema_call ''orders'')) ''call_2''
     = (Inl (DBError ''orders''), ())
   \<and> call_tool (demo_env (\<lambda>n. Inl []))
       (demo_state (demo_request [demo_schema_call ''orders'', demo_list_call]))
       InfoTablesTool (demo_schema_call ''orders'') () [] []
     = (Inl (DBError ''orders''), ())
   \<and> ExecuteSQLTool_get_response (demo_env (\<lambda>n. Inl [])) ()
       (demo_state (demo_request [])) Map.empty ''call_1''
     = (Inl (KeyError ''query''), ())
   \<and> step (demo_env (\<lambda>n. Inl [])) 1 perform_action
       (demo_state (demo_request [demo_schema_call ''orders'', demo_list_call]))
     = Inl (AttributeError
              ([CHR 0x27] @ ''SQLDatabaseToolkit'' @ [CHR 0x27] @ '' object has no attribute '' @
               [CHR 0x27] @ ''tool_map'' @ [CHR 0x27]))"
proof -
  let ?env = "demo_env (\<lambda>n. Inl [])"
  let ?st = "demo_state (demo_request [demo_schema_call ''orders'', demo_list_call])"
  have n: "stripped_names ''orders'' = [''orders'']"
    by (simp add: stripped_names_def strip_def isspace_def isspace_codepoint_def)
  have a: "InfoTablesTool_get_response ?env () ?st (tc_args (demo_schema_call ''orders''))
             ''call_2'' = (Inl (DBError ''orders''), ())"
    by (simp add: InfoTablesTool_get_response_def InfoTablesTool_run_args_def
        InfoTablesTool_run_def get_table_info_def n demo_schema_call_def demo_env_def)
  have i: "str_id (tc_id (demo_schema_call ''orders'')) = ''call_2''"
    by (simp add: demo_schema_call_def)
  have b: "call_tool ?env ?st InfoTablesTool (demo_schema_call ''orders'') () [] []
             = (Inl (DBError ''orders''), ())"
    unfolding call_tool_def i using a by simp
  have c: "ExecuteSQLTool_get_response ?env () (demo_state (demo_request [])) Map.empty ''call_1''
             = (Inl (KeyError ''query''), ())"
    by (simp add: ExecuteSQLTool_get_response_def)
  have d: "step ?env 1 perform_action ?st
     = Inl (AttributeError
              ([CHR 0x27] @ ''SQLDatabaseToolkit'' @ [CHR 0x27] @ '' object has no attribute '' @
               [CHR 0x27] @ ''tool_map'' @ [CHR 0x27]))"
    by (simp add: step_def node_run_def CallToolNode_run_def demo_state_def demo_request_def
        getattr_tool_map_def)
  from a b c d show ?thesis by (intro conjI)
qed

section \<open>The transitions of the graph\<close>

lemma astream_END: "astream env fuel k END st = ([], Finished)"
  by (cases fuel) simp_all

lemma step_next_node:
  assumes "step env k n st = Inr (u, st', n')"
  shows "next_node n st' = Inr n'"
  using assms by (auto simp: step_def split: prod.splits sum.splits)

lemma next_node_transition_rule:
  assumes "next_node n st = Inr n'"
  shows "n' = transition_rule n st"
  using assms
  by (cases n)
     (auto simp: next_node_def ShouldCallToolCondition_run_def transition_rule_def
        split: if_splits)

lemma astream_obeys:
  "obeys n (fst (astream env fuel k n st)) (snd (astream env fuel k n st))"
proof (induction fuel arbitrary: k n st)
  case 0
  show ?case by simp
next
  case (Suc fuel)
  show ?case
  proof (cases "n = END")
    case True
    then show ?thesis by simp
  next
    case False
    show ?thesis
    proof (cases "step env k n st")
      case (Inl e)
      with False show ?thesis by simp
    next
      case (Inr r)
      obtain u st' n' where r: "r = (u, st', n')" by (cases r)
      from Inr r have "next_node n st' = Inr n'" by (simp add: step_next_node)
      then have n': "n' = transition_rule n st'" by (rule next_node_transition_rule)
      from Suc.IH [of n' "if n = call_model then Suc k else k" st'] n' Inr r False
      show ?thesis by (simp add: split_beta)
    qed
  qed
qed

text \<open>
  C1: the edge out of the planning step, taken on a state that has a latest message, leads
  to the end when that message carries no tool invocations (its \<open>additional_kwargs\<close> has
  no key \<open>tool_calls\<close>) and to the execution step otherwise; the edge out of the
  execution step leads to the planning step, whatever the state. Every step of the graph
  that completes is followed by the step the rule gives, the end is final, and every run,
  from any step and state, obeys the rule.
\<close>

theorem plan_act_transitions:
  "(messages st \<noteq> [] \<longrightarrow>
      next_node call_model st =
        Inr (if additional_kwargs (last (messages st)) ''tool_calls'' = None then END
             else perform_action))
   \<and> next_node perform_action st = Inr call_model
   \<and> (\<forall>u st' n'. step env k n st = Inr (u, st', n') \<longrightarrow>
         next_node n st' = Inr n' \<and> n' = transition_rule n st')
   \<and> astream env fuel k END st = ([], Finished)
   \<and> obeys n (fst (astream env fuel k n st)) (snd (astream env fuel k n st))"
proof (intro conjI allI impI)
  assume "messages st \<noteq> []"
  then show "next_node call_model st =
        Inr (if additional_kwargs (last (messages st)) ''tool_calls'' = None then END
             else perform_action)"
    by (simp add: next_node_def ShouldCallToolCondition_run_def)
next
  show "next_node perform_action st = Inr call_model" by (simp add: next_node_def)
next
  fix u st' n'
  assume "step env k n st = Inr (u, st', n')"
  then show a: "next_node n st' = Inr n'" by (rule step_next_node)
  then show "n' = transition_rule n st'" by (rule next_node_transition_rule)
next
  show "astream env fuel k END st = ([], Finished)" by (rule astream_END)
  show "obeys n (fst (astream env fuel k n st)) (snd (astream env fuel k n st))"
    by (rule astream_obeys)
qed

theorem plan_act_transitions_witness:
  "next_node call_model (demo_state (demo_request [demo_list_call])) = Inr perform_action
   \<and> next_node call_model (demo_state demo_final) = Inr END
   \<and> next_node perform_action (demo_state demo_final) = Inr call_model
   \<and> step (demo_env (\<lambda>n. Inl [])) 1 perform_action (demo_state (demo_request []))
       = Inr (state_update [] [],
              (demo_state (demo_request []))\<lparr>messages := [], results := []\<rparr>, call_model)
   \<and> transition_rule perform_action
        ((demo_state (demo_request []))\<lparr>messages := [], results := []\<rparr>) = call_model"
proof -
  let ?env = "demo_env (\<lambda>n. Inl [])"
  let ?s1 = "demo_state (demo_request [demo_list_call])"
  let ?s2 = "demo_state demo_final"
  let ?s3 = "demo_state (demo_request [])"
  let ?s4 = "?s3\<lparr>messages := [], results := []\<rparr>"
  have m1: "messages ?s1 \<noteq> []" and m2: "messages ?s2 \<noteq> []"
    by (simp_all add: demo_state_def)
  have k1: "additional_kwargs (last (messages ?s1)) ''tool_calls'' \<noteq> None"
    by (simp add: demo_state_def demo_request_def)
  have k2: "additional_kwargs (last (messages ?s2)) ''tool_calls'' = None"
    by (simp add: demo_state_def demo_final_def)
  have s: "step ?env 1 perform_action ?s3 = Inr (state_update [] [], ?s4, call_model)"
    by (simp add: step_def node_run_def next_node_def CallToolNode_run_def demo_state_def
        demo_request_def apply_update_def state_update_def)
  note t1 = plan_act_transitions [of ?s1 ?env 1 perform_action 0]
  note t2 = plan_act_transitions [of ?s2 ?env 1 perform_action 0]
  note t3 = plan_act_transitions [of ?s3 ?env 1 perform_action 0]
  from t1 [THEN conjunct1, THEN mp, OF m1] k1
  have a: "next_node call_model ?s1 = Inr perform_action" by simp
  from t2 [THEN conjunct1, THEN mp, OF m2] k2
  have b: "next_node call_model ?s2 = Inr END" by simp
  from t2 [THEN conjunct2, THEN conjunct1]
  have c: "next_node perform_action ?s2 = Inr call_model" .
  from t3 [THEN conjunct2, THEN conjunct2, THEN conjunct1, THEN spec, THEN spec, THEN spec,
      THEN mp, OF s]
  have d: "transition_rule perform_action ?s4 = call_model" by simp
  from a b c s d show ?thesis by (intro conjI)
qed

section \<open>The artifacts of the conversation state\<close>

text \<open>A node reads the state's messages, the model, endpoint and key of its options, its
  toolkit and its question, and never its artifacts nor the secure flag.\<close>

lemma call_tool_state:
  "call_tool env st1 t tc d ms rs = call_tool env st2 t tc d ms rs"
  by (cases t)
     (simp_all add: call_tool_def InfoTablesTool_get_response_def
        ExecuteSQLTool_get_response_def)

lemma tool_calls_loop_state:
  assumes "sql_toolkit st1 = sql_toolkit st2"
  shows "tool_calls_loop env st1 calls d ms rs = tool_calls_loop env st2 calls d ms rs"
proof (induction calls arbitrary: d ms rs)
  case Nil
  show ?case by simp
next
  case (Cons tc calls)
  show ?case
    unfolding tool_calls_loop.simps assms call_tool_state [of env st1 _ _ _ _ _ st2] Cons.IH
    by (rule refl)
qed

lemma node_run_state:
  assumes "messages st1 = messages st2"
    and "llm_model (options st1) = llm_model (options st2)"
    and "openai_base_url (options st1) = openai_base_url (options st2)"
    and "openai_api_key (options st1) = openai_api_key (options st2)"
    and "sql_toolkit st1 = sql_toolkit st2" and "user_query st1 = user_query st2"
  shows "node_run env k n st1 = node_run env k n st2"
proof (cases n)
  case call_model
  have "CallModelNode_run env k st1 = CallModelNode_run env k st2"
    unfolding CallModelNode_run_def model_request_def assms by (rule refl)
  then show ?thesis unfolding call_model by (simp add: node_run_def)
next
  case perform_action
  have "CallToolNode_run env st1 = CallToolNode_run env st2"
    unfolding CallToolNode_run_def tool_calls_loop_state [OF assms(5)] assms(1) assms(5)
    by (rule refl)
  then show ?thesis unfolding perform_action by (simp add: node_run_def)
next
  case END
  show ?thesis unfolding END by (simp add: node_run_def assms)
qed





section \<open>The secure flag\<close>

lemma step_secure:
  "step env k n (with_secure_data b st) =
     (case step env k n st of
        Inl e \<Rightarrow> Inl e
      | Inr (u, st', n') \<Rightarrow> Inr (u, with_secure_data b st', n'))"
proof -
  have r: "node_run env k n (with_secure_data b st) = node_run env k n st"
    by (rule node_run_state) (simp_all add: with_secure_data_def)
  have a: "apply_update (with_secure_data b st) u tk = with_secure_data b (apply_update st u tk)"
    for u tk
    by (simp add: apply_update_def with_secure_data_def)
  have n: "next_node n (with_secure_data b s) = next_node n s" for s :: "'a QueryGraphState"
    by (simp add: next_node_def ShouldCallToolCondition_run_def with_secure_data_def
        split: node.splits)
  show ?thesis
    unfolding step_def r a n by (simp split: prod.splits sum.splits)
qed

lemma astream_secure:
  "astream env fuel k n (with_secure_data b st) =
     (map (\<lambda>(n, u, s). (n, u, with_secure_data b s)) (fst (astream env fuel k n st)),
      snd (astream env fuel k n st))"
proof (induction fuel arbitrary: k n st)
  case 0
  show ?case by simp
next
  case (Suc fuel)
  show ?case
  proof (cases "n = END")
    case True
    then show ?thesis by simp
  next
    case False
    show ?thesis
    proof (cases "step env k n st")
      case (Inl e)
      with False show ?thesis by (simp add: step_secure)
    next
      case (Inr r)
      obtain u st' n' where r: "r = (u, st', n')" by (cases r)
      from Inr r False Suc.IH [of "if n = call_model then Suc k else k" n' st']
      show ?thesis by (simp add: step_secure split_beta)
    qed
  qed
qed

lemma query_service_secure:
  "QueryGraphService_query env fuel service question (opts\<lparr>secure_data := b\<rparr>)
     = QueryGraphService_query env fuel service question opts"
proof -
  have "initial_state service question (opts\<lparr>secure_data := b\<rparr>)
          = with_secure_data b (initial_state service question opts)"
    by (simp add: initial_state_def with_secure_data_def)
  then show ?thesis
    by (simp add: QueryGraphService_query_def astream_secure split_beta comp_def)
qed

text \<open>
  C8: the secure flag changes no output. The answers of the two tools that update the
  state, the body of the execution step's loop and each node give the same messages and
  the same artifacts on a state whose options have the flag set either way; so do the
  updates of every run of the graph and the pairs the service yields, and the handler of
  the query boundary answers the same for the flag true and false. With the flag true the
  SQL-run artifact still carries the rows of the table as the engine gave them.
\<close>

theorem secure_mode_not_enforced:
  "ExecuteSQLTool_get_response env d (with_secure_data b st) args call_id
     = ExecuteSQLTool_get_response env d st args call_id
   \<and> InfoTablesTool_get_response env d (with_secure_data b st) args call_id
     = InfoTablesTool_get_response env d st args call_id
   \<and> call_tool env (with_secure_data b st) t tc d ms rs = call_tool env st t tc d ms rs
   \<and> node_run env k n (with_secure_data b st) = node_run env k n st
   \<and> map (\<lambda>(n, u, s). (n, u)) (fst (astream env fuel k n (with_secure_data b st)))
     = map (\<lambda>(n, u, s). (n, u)) (fst (astream env fuel k n st))
   \<and> snd (astream env fuel k n (with_secure_data b st)) = snd (astream env fuel k n st)
   \<and> QueryGraphService_query env fuel service prompt (opts\<lparr>secure_data := b\<rparr>)
     = QueryGraphService_query env fuel service prompt opts
   \<and> query env fuel store session_id prompt True = query env fuel store session_id prompt False
   \<and> secure_data (options (demo_state (demo_request []))) = True
   \<and> fst (ExecuteSQLTool_get_response (demo_env (\<lambda>n. Inl [])) ()
            (demo_state (demo_request []))
            [''query'' \<mapsto> PStr ''SELECT id, name FROM data''] ''call_1'')
     = Inr \<lparr>upd_messages =
              [ToolMessage
                 (''Query executed successfully. '' @
                  ''I cannot display raw data if secure mode is enabled; describe it instead.'')
                 ''sql_db_query'' ''call_1''],
            upd_results =
              [SQLQueryStringResult ''SELECT id, name FROM data'' False,
               SQLQueryRunResult [''id'', ''name'']
                 [[PInt 1, PStr ''ann''], [PInt 2, PStr ''bob'']] False None]\<rparr>"
proof (intro conjI)
  show "ExecuteSQLTool_get_response env d (with_secure_data b st) args call_id
     = ExecuteSQLTool_get_response env d st args call_id"
    by (simp add: ExecuteSQLTool_get_response_def)
  show "InfoTablesTool_get_response env d (with_secure_data b st) args call_id
     = InfoTablesTool_get_response env d st args call_id"
    by (simp add: InfoTablesTool_get_response_def)
  show "call_tool env (with_secure_data b st) t tc d ms rs = call_tool env st t tc d ms rs"
    by (rule call_tool_state)
  show "node_run env k n (with_secure_data b st) = node_run env k n st"
    by (rule node_run_state) (simp_all add: with_secure_data_def)
  show "map (\<lambda>(n, u, s). (n, u)) (fst (astream env fuel k n (with_secure_data b st)))
     = map (\<lambda>(n, u, s). (n, u)) (fst (astream env fuel k n st))"
    by (simp add: astream_secure split_beta comp_def)
  show "snd (astream env fuel k n (with_secure_data b st)) = snd (astream env fuel k n st)"
    by (simp add: astream_secure)
  show "QueryGraphService_query env fuel service prompt (opts\<lparr>secure_data := b\<rparr>)
     = QueryGraphService_query env fuel service prompt opts"
    by (rule query_service_secure)
  have o: "new_QueryOptions False = (new_QueryOptions True)\<lparr>secure_data := False\<rparr>"
    by (simp add: new_QueryOptions_def)
  show "query env fuel store session_id prompt True
          = query env fuel store session_id prompt False"
    unfolding query_def o query_service_secure by (rule refl)
  show "secure_data (options (demo_state (demo_request []))) = True"
    by (simp add: demo_state_def new_QueryOptions_def)
  show "fst (ExecuteSQLTool_get_response (demo_env (\<lambda>n. Inl [])) ()
            (demo_state (demo_request []))
            [''query'' \<mapsto> PStr ''SELECT id, name FROM data''] ''call_1'')
     = Inr \<lparr>upd_messages =
              [ToolMessage
                 (''Query executed successfully. '' @
                  ''I cannot display raw data if secure mode is enabled; describe it instead.'')
                 ''sql_db_query'' ''call_1''],
            upd_results =
              [SQLQueryStringResult ''SELECT id, name FROM data'' False,
               SQLQueryRunResult [''id'', ''name'']
                 [[PInt 1, PStr ''ann''], [PInt 2, PStr ''bob'']] False None]\<rparr>"
    by (simp add: ExecuteSQLTool_get_response_def new_SQLQueryStringResult_def
        ExecuteSQLTool_run_args_def ExecuteSQLTool_run_def run_sql_def demo_env_def
        demo_execute_def demo_rows_def state_update_def query_executed_def)
qed

section \<open>The query boundary\<close>

text \<open>
  C6: a request on the query boundary whose session identifier the store does not hold
  fails with an error, and no event is streamed: the request has no event list at all,
  whatever the model and the engine would have answered.
\<close>

theorem query_unknown_session:
  "get_engine store session_id = None \<Longrightarrow>
     query env fuel store session_id prompt secure
       = Inl (RuntimeError ''Invalid session_id. Upload CSV first.'')"
  by (simp add: query_def)

theorem query_unknown_session_witness:
  "get_engine demo_store ''s2'' = None
   \<and> query (demo_env (\<lambda>n. Inl [])) 25 demo_store ''s2'' ''how many rows?'' True
       = Inl (RuntimeError ''Invalid session_id. Upload CSV first.'')"
proof -
  have a: "get_engine demo_store ''s2'' = None"
    by (simp add: get_engine_def demo_store_def add_session_def)
  from query_unknown_session [OF a] a show ?thesis by simp
qed

text \<open>
  The constructor of the service does not return: the toolkit's constructor assigns
  \<open>tool_map\<close>, which the toolkit does not declare. Nor does a planning step return on
  any state, since \<open>get_tools\<close> makes the same assignment.
\<close>

lemma QueryGraphService_init_raises:
  "QueryGraphService_init engine
     = Inl (ValueError ''\"SQLDatabaseToolkit\" object has no field \"tool_map\"'')"
  by (simp add: QueryGraphService_init_def SQLDatabaseToolkit_init_def setattr_tool_map_def)

lemma CallModelNode_run_raises:
  "\<exists>e. fst (CallModelNode_run env k st) = Inl e"
  by (simp add: CallModelNode_run_def get_tools_def setattr_tool_map_def split: option.splits)

lemma query_known_session:
  assumes "get_engine store session_id = Some engine"
  shows "query env fuel store session_id prompt secure
           = Inl (ValueError ''\"SQLDatabaseToolkit\" object has no field \"tool_map\"'')"
  using assms by (simp add: query_def QueryGraphService_init_raises)

text \<open>
  C5 does not hold of the code. On a session the store holds, with a model whose every
  response carries no tool invocations, the handler of the query boundary raises where it
  constructs the service: there is no planning step, and no event, so no \<open>END\<close> event.
  This is so for every request on a known session, and a planning step, were it run on
  any state, raises too.
\<close>

theorem query_known_session_raises:
  "get_engine demo_store ''s1'' = Some ()
   \<and> additional_kwargs demo_final ''tool_calls'' = None
   \<and> query (demo_env (\<lambda>n. Inr demo_final)) 25 demo_store ''s1'' ''how many rows?'' True
       = Inl (ValueError ''\"SQLDatabaseToolkit\" object has no field \"tool_map\"'')
   \<and> fst (CallModelNode_run (demo_env (\<lambda>n. Inr demo_final)) 0 (demo_state demo_final))
       = Inl (ValueError ''\"SQLDatabaseToolkit\" object has no field \"tool_map\"'')"
proof (intro conjI)
  show a: "get_engine demo_store ''s1'' = Some ()"
    by (simp add: get_engine_def demo_store_def add_session_def)
  show "additional_kwargs demo_final ''tool_calls'' = None"
    by (simp add: demo_final_def)
  show "query (demo_env (\<lambda>n. Inr demo_final)) 25 demo_store ''s1'' ''how many rows?'' True
       = Inl (ValueError ''\"SQLDatabaseToolkit\" object has no field \"tool_map\"'')"
    by (simp add: query_def a QueryGraphService_init_raises)
  show "fst (CallModelNode_run (demo_env (\<lambda>n. Inr demo_final)) 0 (demo_state demo_final))
       = Inl (ValueError ''\"SQLDatabaseToolkit\" object has no field \"tool_map\"'')"
    by (simp add: CallModelNode_run_def get_tools_def setattr_tool_map_def demo_env_def)
qed

end
